theory Spec2Isabelle
  imports Main
begin

section \<open>The Flask layer: \<open>app/__init__.py\<close>\<close>

subsection \<open>Strings and substrings\<close>

text \<open>
  Python strings are modelled as \<open>string\<close>. \<open>startswith s p\<close> is Python's
  \<open>s.startswith(p)\<close> and \<open>has_substring s sub\<close> is Python's \<open>sub in s\<close>.
\<close>

fun startswith :: "string \<Rightarrow> string \<Rightarrow> bool" where
  "startswith s [] = True"
| "startswith [] (p # ps) = False"
| "startswith (c # cs) (p # ps) = (c = p \<and> startswith cs ps)"

fun has_substring :: "string \<Rightarrow> string \<Rightarrow> bool" where
  "has_substring [] sub = (sub = [])"
| "has_substring (c # cs) sub = (startswith (c # cs) sub \<or> has_substring cs sub)"

subsection \<open>Module initialisation: the \<open>USE_GRAPHQL\<close> flag\<close>

text \<open>
  The module sets \<open>USE_GRAPHQL = False\<close>, then runs, inside one \<open>try\<close> block,
  \<open>import graphene\<close> followed by \<open>from app.blueprint_graphql import graphql_blueprint\<close>
  and \<open>USE_GRAPHQL = True\<close>; \<open>except ImportError\<close> sets the flag to \<open>False\<close>.
  The outcome of each import statement belongs to the Python installation, so it is
  a field of the process environment.
\<close>

datatype import_result = Imported | ImportError

record py_installation =
  import_graphene :: import_result
  import_blueprint_graphql :: import_result

definition USE_GRAPHQL :: "py_installation \<Rightarrow> bool" where
  "USE_GRAPHQL inst =
     (case import_graphene inst of
        ImportError \<Rightarrow> False
      | Imported \<Rightarrow>
          (case import_blueprint_graphql inst of
             ImportError \<Rightarrow> False
           | Imported \<Rightarrow> True))"

subsection \<open>The root endpoint \<open>index()\<close>\<close>

definition redirect_js :: string where
  \<open>redirect_js =
     ''\<newline>    <script>\<newline>    if (! window.location.pathname.toString().endsWith("/")) {\<newline>      document.location.href=window.location+"/"; \<newline>    }\<newline>    </script>\<newline>    ''\<close>

text \<open>\<open>index\<close> reads the module-level flag, which is passed as its argument.\<close>

definition index :: "bool \<Rightarrow> string" where
  \<open>index use_graphql =
     (if use_graphql then
        ''\<newline>            '' @ redirect_js @
        ''\<newline>            <body>\<newline>            <a href="haystack">Haystack API</a><br />\<newline>            <a href="graphql">Haystack GraphQL API</a><br />\<newline>            </body>\<newline>            ''
      else
        ''\<newline>        '' @ redirect_js @
        ''\<newline>        <body>\<newline>        <a href="haystack">Haystack API</a><br />\<newline>        </body>\<newline>        '')\<close>

text \<open>
  The anchors the page is searched for: the link to the Haystack API, and the opening
  tag of the link to the GraphQL API.
\<close>

definition haystack_link :: string where
  \<open>haystack_link = ''<a href="haystack">Haystack API</a>''\<close>

definition graphql_link :: string where
  \<open>graphql_link = ''<a href="graphql">''\<close>

subsection \<open>\<open>start_shaystack(host, port)\<close>\<close>

text \<open>
  \<open>os.environ\<close> is a map from names to strings and \<open>environ_get\<close> is
  \<open>os.environ.get(name, default)\<close>.
\<close>

type_synonym environ = "string \<rightharpoonup> string"

definition environ_get :: "environ \<Rightarrow> string \<Rightarrow> string \<Rightarrow> string" where
  "environ_get env name dflt = (case env name of None \<Rightarrow> dflt | Some v \<Rightarrow> v)"

text \<open>
  \<open>app.run\<close> belongs to Flask. It blocks while the server runs; afterwards it
  returns \<open>None\<close>, or raises, or it never comes back. It is a parameter of the
  model, and the keyword arguments it is called with are recorded.
\<close>

record run_call =
  run_host :: string
  run_port :: int
  run_debug :: bool

datatype 'a outcome = Returns 'a | Raises string | Never_returns

definition start_shaystack ::
  "environ \<Rightarrow> (run_call \<Rightarrow> unit outcome) \<Rightarrow> string \<Rightarrow> int \<Rightarrow> run_call \<times> int outcome" where
  "start_shaystack env app_run host port =
     (let debug = (environ_get env ''FLASK_DEBUG'' ''0'' = ''1'');
          call = \<lparr>run_host = host, run_port = port, run_debug = debug\<rparr>
      in (call,
          case app_run call of
            Returns u \<Rightarrow> Returns 0
          | Raises e \<Rightarrow> Raises e
          | Never_returns \<Rightarrow> Never_returns))"

section \<open>Properties of the Flask layer\<close>

lemma startswith_iff: "startswith s p \<longleftrightarrow> (\<exists>post. s = p @ post)"
  by (induction s p rule: startswith.induct) auto

lemma has_substring_iff: "has_substring s sub \<longleftrightarrow> (\<exists>pre post. s = pre @ sub @ post)"
proof (induction s)
  case Nil
  then show ?case by auto
next
  case (Cons c cs)
  show ?case
  proof
    assume "has_substring (c # cs) sub"
    then consider "startswith (c # cs) sub" | "has_substring cs sub" by auto
    then show "\<exists>pre post. c # cs = pre @ sub @ post"
    proof cases
      case 1
      then obtain post where "c # cs = sub @ post" using startswith_iff by blast
      then have "c # cs = [] @ sub @ post" by simp
      then show ?thesis by blast
    next
      case 2
      then obtain pre post where "cs = pre @ sub @ post" using Cons.IH by blast
      then have "c # cs = (c # pre) @ sub @ post" by simp
      then show ?thesis by blast
    qed
  next
    assume "\<exists>pre post. c # cs = pre @ sub @ post"
    then obtain pre post where eq: "c # cs = pre @ sub @ post" by blast
    show "has_substring (c # cs) sub"
    proof (cases pre)
      case Nil
      with eq have "startswith (c # cs) sub" using startswith_iff by auto
      then show ?thesis by simp
    next
      case (Cons d pre')
      with eq have "cs = pre' @ sub @ post" by simp
      then have "has_substring cs sub" using Cons.IH by blast
      then show ?thesis by simp
    qed
  qed
qed

lemma index_has_haystack_link: "has_substring (index g) haystack_link"
  by (cases g) (simp_all add: index_def redirect_js_def haystack_link_def)

lemma index_graphql_link_iff: "has_substring (index g) graphql_link \<longleftrightarrow> g"
  by (cases g) (simp_all add: index_def redirect_js_def graphql_link_def)

text \<open>
  C9 (as amended). Every call of \<open>index()\<close> returns a page that holds the link to the
  Haystack API. The page holds a link to the GraphQL API exactly when the module-level
  flag \<open>USE_GRAPHQL\<close> is true, and the flag is true exactly when both imports of the
  \<open>try\<close> block succeeded at process start: \<open>import graphene\<close> and
  \<open>from app.blueprint_graphql import graphql_blueprint\<close>.
\<close>

theorem index_links:
  "has_substring (index (USE_GRAPHQL inst)) haystack_link
   \<and> has_substring (index (USE_GRAPHQL inst)) graphql_link = USE_GRAPHQL inst
   \<and> USE_GRAPHQL inst =
       (import_graphene inst = Imported \<and> import_blueprint_graphql inst = Imported)"
proof -
  have flag: "USE_GRAPHQL inst =
      (import_graphene inst = Imported \<and> import_blueprint_graphql inst = Imported)"
    by (simp add: USE_GRAPHQL_def split: import_result.split)
  show ?thesis
    using index_has_haystack_link index_graphql_link_iff flag by blast
qed

theorem index_links_witness:
  "has_substring
     (index (USE_GRAPHQL \<lparr>import_graphene = Imported, import_blueprint_graphql = Imported\<rparr>))
     graphql_link
   \<and> has_substring
     (index (USE_GRAPHQL \<lparr>import_graphene = ImportError, import_blueprint_graphql = Imported\<rparr>))
     haystack_link
   \<and> \<not> has_substring
     (index (USE_GRAPHQL \<lparr>import_graphene = ImportError, import_blueprint_graphql = Imported\<rparr>))
     graphql_link"
  using
    index_links [of "\<lparr>import_graphene = Imported, import_blueprint_graphql = Imported\<rparr>"]
    index_links [of "\<lparr>import_graphene = ImportError, import_blueprint_graphql = Imported\<rparr>"]
  by (simp add: USE_GRAPHQL_def)

text \<open>
  C9 as first stated ties the GraphQL link to \<open>graphene\<close> alone. In an installation
  where \<open>import graphene\<close> succeeds and the import of \<open>app.blueprint_graphql\<close> raises
  \<open>ImportError\<close>, the \<open>except\<close> branch clears the flag and the page has no GraphQL
  link although \<open>graphene\<close> was importable.
\<close>

theorem index_graphene_alone_counterexample:
  "import_graphene \<lparr>import_graphene = Imported, import_blueprint_graphql = ImportError\<rparr>
     = Imported
   \<and> \<not> has_substring
     (index (USE_GRAPHQL \<lparr>import_graphene = Imported, import_blueprint_graphql = ImportError\<rparr>))
     graphql_link"
  by (simp add: USE_GRAPHQL_def index_def redirect_js_def graphql_link_def)

text \<open>
  C10. \<open>start_shaystack(host, port)\<close> calls \<open>app.run\<close> with the host and port it was
  given and with \<open>debug\<close> true exactly when the environment variable \<open>FLASK_DEBUG\<close>
  is the string \<open>1\<close>; whenever that call returns, \<open>start_shaystack\<close> returns 0.
\<close>

theorem start_shaystack_debug_and_result:
  "run_debug (fst (start_shaystack env app_run host port)) = (env ''FLASK_DEBUG'' = Some ''1'')
   \<and> run_host (fst (start_shaystack env app_run host port)) = host
   \<and> run_port (fst (start_shaystack env app_run host port)) = port
   \<and> (app_run (fst (start_shaystack env app_run host port)) = Returns ()
        \<longrightarrow> snd (start_shaystack env app_run host port) = Returns 0)"
proof -
  have dbg: "(environ_get env ''FLASK_DEBUG'' ''0'' = ''1'') = (env ''FLASK_DEBUG'' = Some ''1'')"
    by (cases "env ''FLASK_DEBUG''") (simp_all add: environ_get_def)
  show ?thesis
    unfolding start_shaystack_def Let_def dbg by simp
qed

theorem start_shaystack_debug_and_result_witness:
  "run_debug (fst (start_shaystack [''FLASK_DEBUG'' \<mapsto> ''1''] (\<lambda>c. Returns ()) ''localhost'' 3000))
   \<and> \<not> run_debug (fst (start_shaystack [''FLASK_DEBUG'' \<mapsto> ''true''] (\<lambda>c. Returns ()) ''localhost'' 3000))
   \<and> \<not> run_debug (fst (start_shaystack Map.empty (\<lambda>c. Returns ()) ''localhost'' 3000))
   \<and> snd (start_shaystack [''FLASK_DEBUG'' \<mapsto> ''1''] (\<lambda>c. Returns ()) ''localhost'' 3000) = Returns 0"
  using
    start_shaystack_debug_and_result [of "[''FLASK_DEBUG'' \<mapsto> ''1'']" "\<lambda>c. Returns ()" "''localhost''" 3000]
    start_shaystack_debug_and_result [of "[''FLASK_DEBUG'' \<mapsto> ''true'']" "\<lambda>c. Returns ()" "''localhost''" 3000]
    start_shaystack_debug_and_result [of "Map.empty" "\<lambda>c. Returns ()" "''localhost''" 3000]
  by simp

end
